theory Spec2Isabelle
  imports Main
begin

section \<open>Data model\<close>

text \<open>
  The two request handlers of the service, \<open>process_document_fully\<close>
  (app/api/workflow.py) and \<open>get_summary\<close> (app/api/summaries.py), are embedded as
  functions on an explicit world. Python strings are \<open>string\<close>; a character stands
  for a code point below 256. A JSON response body is an association list in the order
  the handler writes its keys.
\<close>

datatype json = JNull | JBool bool | JInt int | JStr string

type_synonym response = "(string \<times> json) list"

text \<open>
  An exception leaving a handler: \<open>HTTPException status detail\<close> is the one the
  workflow handler raises itself; \<open>Raised name\<close> is any other exception, raised by
  the operating system or by a collaborator.
\<close>

datatype exn = HTTPException nat string | Raised string

type_synonym page = string
type_synonym chunk = string

text \<open>The dictionary returned by \<open>ocr_processor.process_document\<close>; a key can be absent.\<close>

record parsed_data =
  pd_text :: "string option"
  pd_page_details :: "page list option"

text \<open>The dictionary returned by \<open>embedder.build_index\<close>; a key can be absent.\<close>

record build_result =
  br_error :: "string option"
  br_path :: "string option"

text \<open>
  Modelled from the spec: the values of \<open>DOCUMENT_LAST_RESULT\<close>, the dictionary that
  app/api/summaries.py imports from app/api/processing.py, a module whose source is
  missing. The spec's ProcessingResult holds the extracted text, the page details, a
  summary and an index descriptor; each is a key of a Python dictionary and can be
  absent. The dictionary with no key at all is the empty dictionary, which Python
  treats as false.
\<close>

record processing_result =
  pr_text :: "string option"
  pr_page_details :: "page list option"
  pr_summary :: "string option"
  pr_index :: "build_result option"

definition dict_nonempty :: "processing_result \<Rightarrow> bool" where
  "dict_nonempty r \<longleftrightarrow>
     pr_text r \<noteq> None \<or> pr_page_details r \<noteq> None \<or> pr_summary r \<noteq> None \<or> pr_index r \<noteq> None"

text \<open>
  Every call that leaves the handler: to a collaborator, or a lookup in the Result
  Cache. The world records them in order.
\<close>

datatype event =
    Ocr_process_document string
  | Summarize_document string string
  | Process_and_chunk_pages "string option" "page list option" nat nat
  | Build_index "chunk list"
  | Cache_get string

text \<open>
  The world: the paths that exist in the working directory, the Result Cache
  (\<open>DOCUMENT_LAST_RESULT\<close>) and the calls made so far.
\<close>

record world =
  files :: "string set"
  cache :: "string \<rightharpoonup> processing_result"
  trace :: "event list"

definition emit :: "event \<Rightarrow> world \<Rightarrow> world" where
  "emit e w = w\<lparr>trace := trace w @ [e]\<rparr>"

text \<open>
  The collaborators and the operating system, as this run sees them. A collaborator
  either returns or raises. \<open>summarize_document\<close> takes the API key its
  \<open>LLMService\<close> was built with, then the text and the summary type. \<open>can_create\<close>
  says whether \<open>open(path, "wb")\<close> succeeds. A collaborator is a function of its
  arguments: the handlers pass it neither the cache nor the working directory, and what
  it does to them on its own is outside the model.
\<close>

record services =
  can_create :: "string \<Rightarrow> bool"
  process_document :: "string \<Rightarrow> exn + parsed_data"
  summarize_document :: "string \<Rightarrow> string \<Rightarrow> string \<Rightarrow> exn + string"
  process_and_chunk_pages :: "string option \<Rightarrow> page list option \<Rightarrow> nat \<Rightarrow> nat \<Rightarrow> exn + chunk list"
  build_index :: "chunk list \<Rightarrow> exn + build_result"

text \<open>The upload: its file name (FastAPI allows none) and whether its stream can be read.\<close>

record upload_file =
  filename :: "string option"
  readable :: bool

section \<open>Python helpers\<close>

text \<open>\<open>str(x)\<close> inside an f-string, for an optional string.\<close>

definition py_str :: "string option \<Rightarrow> string" where
  "py_str x = (case x of None \<Rightarrow> ''None'' | Some s \<Rightarrow> s)"

text \<open>Truth value of an optional string: \<open>None\<close> and \<open>""\<close> are false.\<close>

definition truthy :: "string option \<Rightarrow> bool" where
  "truthy x = (case x of None \<Rightarrow> False | Some s \<Rightarrow> s \<noteq> [])"

text \<open>\<open>str.isspace\<close> on one code point below 256.\<close>

definition isspace :: "char \<Rightarrow> bool" where
  "isspace c \<longleftrightarrow> (of_char c :: nat) \<in> {9, 10, 11, 12, 13, 28, 29, 30, 31, 32, 133, 160}"

text \<open>
  \<open>str.split()\<close> with no argument: skip white space, take the run of other characters
  up to the next white space, repeat.
\<close>

function str_split :: "string \<Rightarrow> string list" where
  "str_split s =
     (case dropWhile isspace s of
        [] \<Rightarrow> []
      | c # cs \<Rightarrow> (c # takeWhile (\<lambda>x. \<not> isspace x) cs) # str_split (dropWhile (\<lambda>x. \<not> isspace x) cs))"
  by pat_completeness auto
termination
proof (relation "measure length")
  show "wf (measure length)" by simp
next
  fix s :: string and c cs
  assume a: "dropWhile isspace s = c # cs"
  have "length (dropWhile (\<lambda>x. \<not> isspace x) cs) \<le> length cs"
    by (rule length_dropWhile_le)
  moreover have "length (c # cs) \<le> length s"
    using length_dropWhile_le [of isspace s] a by simp
  ultimately show "(dropWhile (\<lambda>x. \<not> isspace x) cs, s) \<in> measure length"
    by simp
qed

declare str_split.simps [simp del]

text \<open>
  The spec's words for the word count, "the number of whitespace-separated tokens":
  a token starts at every character that is not white space and that follows white
  space or the start of the string. The flag says whether the previous character
  belonged to a token.
\<close>

fun count_tokens :: "bool \<Rightarrow> string \<Rightarrow> nat" where
  "count_tokens in_token [] = 0"
| "count_tokens in_token (c # cs) =
     (if isspace c then count_tokens False cs
      else (if in_token then 0 else 1) + count_tokens True cs)"

section \<open>The workflow endpoint (app/api/workflow.py)\<close>

text \<open>
  \<open>temp_file_path = f"temp_{uuid.uuid4().hex}_{file.filename}"\<close>; the hexadecimal
  digest of the random draw is an input.
\<close>

definition temp_file_path :: "string \<Rightarrow> upload_file \<Rightarrow> string" where
  "temp_file_path u file = ''temp_'' @ u @ ''_'' @ py_str (filename file)"

text \<open>
  The body of the \<open>try\<close> block, lines 41 to 78. \<open>api_key\<close> is the module's key, with
  which the module built its summarizer; \<open>u2\<close> is the digest of the second random
  draw, bound to \<open>document_id\<close> and not used again.
\<close>

definition pipeline ::
  "services \<Rightarrow> string \<Rightarrow> string \<Rightarrow> upload_file \<Rightarrow> string \<Rightarrow> world \<Rightarrow> (exn + response) \<times> world" where
  "pipeline sv api_key u2 file path w =
     (if \<not> can_create sv path then (Inl (Raised ''OSError''), w)
      else
        let w1 = w\<lparr>files := insert path (files w)\<rparr> in
        if \<not> readable file then (Inl (Raised ''OSError''), w1)
        else
          let w2 = emit (Ocr_process_document path) w1 in
          (case process_document sv path of
            Inl e \<Rightarrow> (Inl e, w2)
          | Inr parsed \<Rightarrow>
              let full_text = pd_text parsed;
                  page_details = pd_page_details parsed
              in
              (case full_text of
                 None \<Rightarrow> (Inl (HTTPException 400 ''Failed to extract text from document.''), w2)
               | Some t \<Rightarrow>
                   if t = [] then
                     (Inl (HTTPException 400 ''Failed to extract text from document.''), w2)
                   else
                     let w3 = emit (Summarize_document t ''general'') w2 in
                     (case summarize_document sv api_key t ''general'' of
                       Inl e \<Rightarrow> (Inl e, w3)
                     | Inr summary \<Rightarrow>
                         let document_id = u2;
                             w4 = emit (Process_and_chunk_pages (filename file) page_details 250 50) w3
                         in
                         (case process_and_chunk_pages sv (filename file) page_details 250 50 of
                            Inl e \<Rightarrow> (Inl e, w4)
                          | Inr chunks \<Rightarrow>
                              let w5 = emit (Build_index chunks) w4 in
                              (case build_index sv chunks of
                                Inl e \<Rightarrow> (Inl e, w5)
                              | Inr result \<Rightarrow>
                                  (case br_error result of
                                     Some err \<Rightarrow>
                                       (Inl (HTTPException 500 (''Failed to build index: '' @ err)), w5)
                                   | None \<Rightarrow>
                                       let faiss_index_path = ''embeddings/document_index.faiss'' in
                                       (Inr [(''success'', JBool True),
                                             (''filename'', (case filename file of None \<Rightarrow> JNull | Some f \<Rightarrow> JStr f)),
                                             (''summary'', JStr summary),
                                             (''faiss_index_path'', JStr faiss_index_path)], w5))))))))"

text \<open>The \<open>finally\<close> block, lines 79 to 81.\<close>

definition cleanup :: "string \<Rightarrow> world \<Rightarrow> world" where
  "cleanup path w = (if path \<in> files w then w\<lparr>files := files w - {path}\<rparr> else w)"

text \<open>The handler: the \<open>try\<close> block, then the \<open>finally\<close> block on every way out.\<close>

definition process_document_fully ::
  "services \<Rightarrow> string \<Rightarrow> string \<Rightarrow> string \<Rightarrow> upload_file \<Rightarrow> world \<Rightarrow> (exn + response) \<times> world" where
  "process_document_fully sv api_key u1 u2 file w =
     (let path = temp_file_path u1 file;
          (r, w') = pipeline sv api_key u2 file path w
      in (r, cleanup path w'))"

section \<open>The summary endpoint (app/api/summaries.py)\<close>

text \<open>
  \<open>get_summarizer\<close>, lines 11 to 17: no summarizer without a non-empty
  \<open>OPENAI_API_KEY\<close> in the environment.
\<close>

definition get_summarizer ::
  "services \<Rightarrow> string option \<Rightarrow> (string \<Rightarrow> string \<Rightarrow> exn + string) option" where
  "get_summarizer sv env_key =
     (case env_key of
        None \<Rightarrow> None
      | Some k \<Rightarrow> if k = [] then None else Some (summarize_document sv k))"

definition not_processed_message :: "string \<Rightarrow> string" where
  "not_processed_message document_id =
     ''Document '' @ document_id @
     '' not processed yet. Please process the document first using POST /api/process/'' @
     document_id"

definition no_text_message :: string where
  "no_text_message =
     ''No text provided. Either provide '' @ [CHR 0x27] @ ''text'' @ [CHR 0x27] @
     '' parameter or ensure document is processed with '' @ [CHR 0x27] @ ''document_id'' @
     [CHR 0x27]"

text \<open>
  Lines 27 to 35 of \<open>get_summary\<close>: the source text, or the response of the early
  return.
\<close>

definition source_text ::
  "string option \<Rightarrow> string option \<Rightarrow> world \<Rightarrow> (response + string) \<times> world" where
  "source_text document_id text w =
     (let source = (case text of None \<Rightarrow> [] | Some t \<Rightarrow> t) in
      if truthy document_id \<and> \<not> truthy text then
        let d = py_str document_id;
            w1 = emit (Cache_get d) w;
            cached_result = cache w d
        in
        (case cached_result of
           None \<Rightarrow> (Inl [(''error'', JStr (not_processed_message d))], w1)
         | Some r \<Rightarrow>
             if dict_nonempty r then
               (Inr (case pr_text r of None \<Rightarrow> [] | Some t \<Rightarrow> t), w1)
             else (Inl [(''error'', JStr (not_processed_message d))], w1))
      else (Inr source, w))"

text \<open>The handler, lines 21 to 41.\<close>

definition get_summary ::
  "services \<Rightarrow> string option \<Rightarrow> string \<Rightarrow> string option \<Rightarrow> string option \<Rightarrow> world \<Rightarrow>
     (exn + response) \<times> world" where
  "get_summary sv env_key type document_id text w =
     (case get_summarizer sv env_key of
        None \<Rightarrow> (Inr [(''error'', JStr ''Missing OPENAI_API_KEY'')], w)
      | Some summarizer \<Rightarrow>
          (case source_text document_id text w of
             (Inl resp, w1) \<Rightarrow> (Inr resp, w1)
           | (Inr source, w1) \<Rightarrow>
               if source = [] then (Inr [(''error'', JStr no_text_message)], w1)
               else
                 let w2 = emit (Summarize_document source type) w1 in
                 (case summarizer source type of
                   Inl e \<Rightarrow> (Inl e, w2)
                 | Inr summary \<Rightarrow>
                     (Inr [(''summary'', JStr summary),
                           (''word_count'', JInt (int (length (str_split summary)))),
                           (''status'', JStr ''success'')], w2))))"

section \<open>A concrete run\<close>

text \<open>
  An environment in which every step succeeds: the OCR extracts "Hello world", the
  summarizer answers "A greeting", and the index is built. Two variants follow: one in
  which the OCR extracts the empty text, one in which the index build reports
  "disk full".
\<close>

definition demo_services :: services where
  "demo_services =
     \<lparr>can_create = (\<lambda>p. True),
      process_document =
        (\<lambda>p. Inr \<lparr>pd_text = Some ''Hello world'', pd_page_details = Some [''Hello world'']\<rparr>),
      summarize_document = (\<lambda>k t ty. Inr ''A greeting''),
      process_and_chunk_pages = (\<lambda>f pages size overlap. Inr (case pages of None \<Rightarrow> [] | Some ps \<Rightarrow> ps)),
      build_index =
        (\<lambda>cs. Inr \<lparr>br_error = None, br_path = Some ''embeddings/document_index.faiss''\<rparr>)\<rparr>"

definition demo_services_no_text :: services where
  "demo_services_no_text =
     demo_services\<lparr>process_document := (\<lambda>p. Inr \<lparr>pd_text = Some [], pd_page_details = None\<rparr>)\<rparr>"

definition demo_services_disk_full :: services where
  "demo_services_disk_full =
     demo_services\<lparr>build_index := (\<lambda>cs. Inr \<lparr>br_error = Some ''disk full'', br_path = None\<rparr>)\<rparr>"

definition demo_file :: upload_file where
  "demo_file = \<lparr>filename = Some ''report.pdf'', readable = True\<rparr>"

definition empty_world :: world where
  "empty_world = \<lparr>files = {}, cache = Map.empty, trace = []\<rparr>"

text \<open>A world whose cache holds one processed document, under the key "doc1".\<close>

definition demo_result :: processing_result where
  "demo_result =
     \<lparr>pr_text = Some ''cached text'', pr_page_details = None, pr_summary = None, pr_index = None\<rparr>"

definition cached_world :: world where
  "cached_world = \<lparr>files = {}, cache = [''doc1'' \<mapsto> demo_result], trace = []\<rparr>"

text \<open>The response of the successful run above.\<close>

definition demo_response :: response where
  "demo_response =
     [(''success'', JBool True),
      (''filename'', JStr ''report.pdf''),
      (''summary'', JStr ''A greeting''),
      (''faiss_index_path'', JStr ''embeddings/document_index.faiss'')]"

section \<open>Properties of the model\<close>

lemma pipeline_cache: "cache (snd (pipeline sv k u2 upl path w)) = cache w"
  unfolding pipeline_def emit_def
  by (simp add: Let_def split: sum.splits option.splits)

lemma pdf_cache: "cache (snd (process_document_fully sv k u1 u2 upl w)) = cache w"
proof -
  obtain r w' where p: "pipeline sv k u2 upl (temp_file_path u1 upl) w = (r, w')"
    by (cases "pipeline sv k u2 upl (temp_file_path u1 upl) w")
  have "cache w' = cache w" using pipeline_cache [of sv k u2 upl "temp_file_path u1 upl" w] p by simp
  then show ?thesis
    by (simp add: process_document_fully_def p cleanup_def Let_def)
qed

lemma count_tokens_skip_space: "count_tokens False (dropWhile isspace s) = count_tokens False s"
  by (induction s) simp_all

lemma count_tokens_skip_token:
  "count_tokens False (dropWhile (\<lambda>x. \<not> isspace x) s) = count_tokens True s"
  by (induction s) simp_all

lemma length_str_split: "length (str_split s) = count_tokens False s"
proof (induction s rule: str_split.induct)
  case (1 s)
  show ?case
  proof (cases "dropWhile isspace s")
    case Nil
    have "count_tokens False s = count_tokens False (dropWhile isspace s)"
      by (simp only: count_tokens_skip_space)
    also have "\<dots> = 0"
      by (simp only: Nil count_tokens.simps)
    finally have "count_tokens False s = 0" .
    moreover have "str_split s = []"
      by (simp only: str_split.simps [of s] Nil list.case)
    ultimately show ?thesis by simp
  next
    case (Cons c cs)
    then have nsp: "\<not> isspace c"
      using hd_dropWhile [of isspace s] by fastforce
    have "count_tokens False s = count_tokens False (dropWhile isspace s)"
      by (simp only: count_tokens_skip_space)
    also have "\<dots> = count_tokens False (c # cs)"
      by (simp only: Cons)
    also have "\<dots> = Suc (count_tokens True cs)"
      using nsp by simp
    also have "\<dots> = Suc (length (str_split (dropWhile (\<lambda>x. \<not> isspace x) cs)))"
      using "1.IH" [OF Cons] by (simp add: count_tokens_skip_token)
    finally have "count_tokens False s = Suc (length (str_split (dropWhile (\<lambda>x. \<not> isspace x) cs)))" .
    moreover have "str_split s =
        (c # takeWhile (\<lambda>x. \<not> isspace x) cs) # str_split (dropWhile (\<lambda>x. \<not> isspace x) cs)"
      by (simp only: str_split.simps [of s] Cons list.case)
    ultimately show ?thesis by simp
  qed
qed

lemmas demo_defs =
  demo_services_def demo_services_no_text_def demo_services_disk_full_def demo_file_def
  empty_world_def cached_world_def demo_result_def demo_response_def
lemmas workflow_defs =
  process_document_fully_def pipeline_def temp_file_path_def py_str_def emit_def
  cleanup_def truthy_def Let_def
lemmas summary_defs =
  get_summary_def get_summarizer_def source_text_def truthy_def py_str_def emit_def
  dict_nonempty_def Let_def

lemma pipeline_files:
  "files (snd (pipeline sv k u2 upl path w)) = files w \<or>
   files (snd (pipeline sv k u2 upl path w)) = insert path (files w)"
  unfolding pipeline_def emit_def
  by (simp add: Let_def split: sum.splits option.splits)

lemma pdf_files:
  "files (snd (process_document_fully sv k u1 u2 upl w)) = files w - {temp_file_path u1 upl}"
proof -
  obtain r w' where p: "pipeline sv k u2 upl (temp_file_path u1 upl) w = (r, w')"
    by (cases "pipeline sv k u2 upl (temp_file_path u1 upl) w")
  have "files w' = files w \<or> files w' = insert (temp_file_path u1 upl) (files w)"
    using pipeline_files [of sv k u2 upl "temp_file_path u1 upl" w] p by simp
  then show ?thesis
    by (auto simp add: process_document_fully_def p cleanup_def Let_def)
qed

lemma pipeline_no_text:
  assumes "can_create sv path" "readable upl" "process_document sv path = Inr pd"
    "\<not> truthy (pd_text pd)"
  shows "pipeline sv k u2 upl path w =
     (Inl (HTTPException 400 ''Failed to extract text from document.''),
      emit (Ocr_process_document path) (w\<lparr>files := insert path (files w)\<rparr>))"
  using assms unfolding pipeline_def truthy_def
  by (simp add: Let_def split: option.splits)

lemma pipeline_build_error:
  assumes "can_create sv path" "readable upl" "process_document sv path = Inr pd"
    "pd_text pd = Some t" "t \<noteq> []" "summarize_document sv k t ''general'' = Inr summary"
    "process_and_chunk_pages sv (filename upl) (pd_page_details pd) 250 50 = Inr chunks"
    "build_index sv chunks = Inr result" "br_error result = Some err"
  shows "fst (pipeline sv k u2 upl path w) =
     Inl (HTTPException 500 (''Failed to build index: '' @ err))"
  using assms unfolding pipeline_def
  by (simp add: Let_def)

lemma pipeline_success:
  assumes "fst (pipeline sv k u2 upl path w) = Inr resp"
  shows "\<exists>pd t summary. process_document sv path = Inr pd \<and> pd_text pd = Some t \<and>
     summarize_document sv k t ''general'' = Inr summary \<and>
     resp = [(''success'', JBool True),
             (''filename'', (case filename upl of None \<Rightarrow> JNull | Some f \<Rightarrow> JStr f)),
             (''summary'', JStr summary),
             (''faiss_index_path'', JStr ''embeddings/document_index.faiss'')]"
  using assms unfolding pipeline_def
  by (auto simp add: Let_def split: if_splits sum.splits option.splits)

lemma pipeline_fst_id: "fst (pipeline sv k d upl path w) = fst (pipeline sv k d' upl path w)"
  unfolding pipeline_def
  by (simp add: Let_def split: sum.splits option.splits)

lemma pdf_fst: "fst (process_document_fully sv k u1 u2 upl w) = fst (pipeline sv k u2 upl (temp_file_path u1 upl) w)"
  by (simp add: process_document_fully_def Let_def split: prod.splits)

lemma pdf_trace: "trace (snd (process_document_fully sv k u1 u2 upl w)) = trace (snd (pipeline sv k u2 upl (temp_file_path u1 upl) w))"
  by (simp add: process_document_fully_def Let_def cleanup_def split: prod.splits)

lemma demo_run:
  "process_document_fully demo_services ''sk-demo'' ''0a'' ''1b'' demo_file empty_world =
     (Inr demo_response,
      \<lparr>files = {}, cache = Map.empty,
       trace = [Ocr_process_document ''temp_0a_report.pdf'',
                Summarize_document ''Hello world'' ''general'',
                Process_and_chunk_pages (Some ''report.pdf'') (Some [''Hello world'']) 250 50,
                Build_index [''Hello world'']]\<rparr>)"
  by (simp add: workflow_defs demo_defs)

section \<open>The claims\<close>

subsection \<open>C1\<close>

text \<open>
  Claim C1, as the code has it. A fully successful run of the workflow endpoint returns
  its response and leaves the Result Cache exactly as it found it: the handler binds a
  fresh document identifier and writes no entry under it, or under any other key.
\<close>

theorem workflow_success_leaves_cache:
  "fst (process_document_fully sv k u1 u2 upl w) = Inr resp \<Longrightarrow>
   cache (snd (process_document_fully sv k u1 u2 upl w)) = cache w"
  by (rule pdf_cache)

text \<open>The theorem at a concrete run.\<close>

theorem workflow_success_leaves_cache_witness:
  "fst (process_document_fully demo_services ''sk-demo'' ''0a'' ''1b'' demo_file cached_world)
     = Inr demo_response \<and>
   cache (snd (process_document_fully demo_services ''sk-demo'' ''0a'' ''1b'' demo_file cached_world))
     = cache cached_world"
proof -
  have h: "fst (process_document_fully demo_services ''sk-demo'' ''0a'' ''1b'' demo_file cached_world)
     = Inr demo_response"
    by (simp add: workflow_defs demo_defs)
  show ?thesis
    using h workflow_success_leaves_cache [OF h] by simp
qed

text \<open>The claim as stated fails: after the successful run above, the cache holds no entry for the identifier drawn.\<close>

theorem workflow_success_caches_nothing_counterexample:
  "fst (process_document_fully demo_services ''sk-demo'' ''0a'' ''1b'' demo_file empty_world)
     = Inr demo_response \<and>
   cache (snd (process_document_fully demo_services ''sk-demo'' ''0a'' ''1b'' demo_file empty_world))
     ''1b'' = None"
  by (simp add: demo_run)

subsection \<open>C2\<close>

text \<open>
  Claim C2, as the code has it. The round trip holds for what the Result Cache
  contains, however it got there: when the cache maps a non-empty identifier \<open>d\<close> to
  a result whose text is \<open>T\<close>, the summary endpoint called with \<open>document_id = d\<close> and
  no text (or the empty text) resolves its source text to exactly \<open>T\<close>.
\<close>

theorem cached_text_round_trip:
  assumes "cache w d = Some r" and "pr_text r = Some T" and "d \<noteq> []" and "\<not> truthy text"
  shows "fst (source_text (Some d) text w) = Inr T"
  using assms by (simp add: source_text_def truthy_def py_str_def dict_nonempty_def Let_def)

text \<open>The theorem at a concrete run.\<close>

theorem cached_text_round_trip_witness:
  "cache cached_world ''doc1'' = Some demo_result \<and> pr_text demo_result = Some ''cached text'' \<and>
   fst (source_text (Some ''doc1'') None cached_world) = Inr ''cached text''"
proof -
  have a: "cache cached_world ''doc1'' = Some demo_result" by (simp add: cached_world_def)
  have b: "pr_text demo_result = Some ''cached text''" by (simp add: demo_result_def)
  have c: "''doc1'' \<noteq> []" by simp
  have d: "\<not> truthy None" by (simp add: truthy_def)
  show ?thesis
    using a b cached_text_round_trip [OF a b c d] by simp
qed

text \<open>The claim as stated fails: after a successful workflow run that extracted "Hello world" and drew the identifier "1b", the summary endpoint called with that identifier answers that the document is not processed.\<close>

theorem workflow_then_summary_counterexample:
  "fst (process_document_fully demo_services ''sk-demo'' ''0a'' ''1b'' demo_file empty_world)
     = Inr demo_response \<and>
   process_document demo_services ''temp_0a_report.pdf''
     = Inr \<lparr>pd_text = Some ''Hello world'', pd_page_details = Some [''Hello world'']\<rparr> \<and>
   fst (source_text (Some ''1b'') None
          (snd (process_document_fully demo_services ''sk-demo'' ''0a'' ''1b'' demo_file empty_world)))
     = Inl [(''error'', JStr (not_processed_message ''1b''))] \<and>
   fst (get_summary demo_services (Some ''sk-demo'') ''short'' (Some ''1b'') None
          (snd (process_document_fully demo_services ''sk-demo'' ''0a'' ''1b'' demo_file empty_world)))
     = Inr [(''error'', JStr (not_processed_message ''1b''))]"
  by (simp add: demo_run summary_defs) (simp add: demo_defs)

subsection \<open>C3\<close>

text \<open>
  Claim C3. Whatever the collaborators return or raise, and whether or not the file
  could be created, the temporary path of the upload does not exist when the workflow
  handler finishes; every other path of the working directory is as before.
\<close>

theorem temp_file_removed:
  "temp_file_path u1 upl \<notin> files (snd (process_document_fully sv k u1 u2 upl w)) \<and>
   files (snd (process_document_fully sv k u1 u2 upl w)) = files w - {temp_file_path u1 upl}"
  by (simp add: pdf_files)

text \<open>The theorem at a concrete run.\<close>

theorem temp_file_removed_witness:
  "temp_file_path ''0a'' demo_file = ''temp_0a_report.pdf'' \<and>
   ''temp_0a_report.pdf''
     \<notin> files (snd (process_document_fully demo_services_no_text ''sk-demo'' ''0a'' ''1b'' demo_file empty_world))"
proof -
  have p: "temp_file_path ''0a'' demo_file = ''temp_0a_report.pdf''"
    by (simp add: temp_file_path_def py_str_def demo_file_def)
  show ?thesis
    using p temp_file_removed [of "''0a''" demo_file demo_services_no_text "''sk-demo''" "''1b''" empty_world]
    by simp
qed

subsection \<open>C4\<close>

text \<open>
  Claim C4. When the upload has been persisted and the OCR collaborator returns no text
  (the key is absent or the text is empty), the workflow endpoint fails with status 400,
  the OCR call is the only call it has made (neither the summarizer nor the embedder is
  invoked), and the Result Cache is unmodified.
\<close>

theorem no_text_is_client_error:
  assumes "can_create sv (temp_file_path u1 upl)" and "readable upl"
    and "process_document sv (temp_file_path u1 upl) = Inr pd"
    and "\<not> truthy (pd_text pd)"
  shows "fst (process_document_fully sv k u1 u2 upl w)
           = Inl (HTTPException 400 ''Failed to extract text from document.'') \<and>
         trace (snd (process_document_fully sv k u1 u2 upl w))
           = trace w @ [Ocr_process_document (temp_file_path u1 upl)] \<and>
         cache (snd (process_document_fully sv k u1 u2 upl w)) = cache w"
  using pipeline_no_text [OF assms, of k u2 w]
  by (simp add: pdf_fst pdf_trace pdf_cache emit_def)

text \<open>The theorem at a concrete run.\<close>

theorem no_text_is_client_error_witness:
  "fst (process_document_fully demo_services_no_text ''sk-demo'' ''0a'' ''1b'' demo_file cached_world)
     = Inl (HTTPException 400 ''Failed to extract text from document.'') \<and>
   trace (snd (process_document_fully demo_services_no_text ''sk-demo'' ''0a'' ''1b'' demo_file cached_world))
     = [Ocr_process_document ''temp_0a_report.pdf''] \<and>
   cache (snd (process_document_fully demo_services_no_text ''sk-demo'' ''0a'' ''1b'' demo_file cached_world))
     = cache cached_world"
proof -
  have p: "temp_file_path ''0a'' demo_file = ''temp_0a_report.pdf''"
    by (simp add: temp_file_path_def py_str_def demo_file_def)
  have a: "can_create demo_services_no_text (temp_file_path ''0a'' demo_file)"
    by (simp add: demo_defs)
  have b: "readable demo_file" by (simp add: demo_defs)
  have c: "process_document demo_services_no_text (temp_file_path ''0a'' demo_file)
             = Inr \<lparr>pd_text = Some [], pd_page_details = None\<rparr>"
    by (simp add: demo_defs)
  have d: "\<not> truthy (pd_text \<lparr>pd_text = Some [], pd_page_details = None\<rparr>)"
    by (simp add: truthy_def)
  have "trace cached_world = []" by (simp add: cached_world_def)
  then show ?thesis
    using no_text_is_client_error [OF a b c d, of "''sk-demo''" "''1b''" cached_world] p
    by simp
qed

subsection \<open>C5\<close>

text \<open>
  Claim C5. When the pipeline reaches \<open>build_index\<close> and its result holds an error, the
  workflow endpoint fails with status 500 and a detail that ends with the collaborator's
  error message, and the Result Cache is unmodified: no entry is added.
\<close>

theorem index_error_is_server_error:
  assumes "can_create sv (temp_file_path u1 upl)" and "readable upl"
    and "process_document sv (temp_file_path u1 upl) = Inr pd"
    and "pd_text pd = Some t" and "t \<noteq> []"
    and "summarize_document sv k t ''general'' = Inr summary"
    and "process_and_chunk_pages sv (filename upl) (pd_page_details pd) 250 50 = Inr chunks"
    and "build_index sv chunks = Inr result"
    and "br_error result = Some err"
  shows "fst (process_document_fully sv k u1 u2 upl w)
           = Inl (HTTPException 500 (''Failed to build index: '' @ err)) \<and>
         cache (snd (process_document_fully sv k u1 u2 upl w)) = cache w"
  using pipeline_build_error [OF assms, of u2 w]
  by (simp add: pdf_fst pdf_cache)

text \<open>The theorem at a concrete run.\<close>

theorem index_error_is_server_error_witness:
  "fst (process_document_fully demo_services_disk_full ''sk-demo'' ''0a'' ''1b'' demo_file empty_world)
     = Inl (HTTPException 500 ''Failed to build index: disk full'') \<and>
   cache (snd (process_document_fully demo_services_disk_full ''sk-demo'' ''0a'' ''1b'' demo_file empty_world))
     ''1b'' = None"
proof -
  have a: "can_create demo_services_disk_full (temp_file_path ''0a'' demo_file)"
    by (simp add: demo_defs)
  have b: "readable demo_file" by (simp add: demo_defs)
  have c: "process_document demo_services_disk_full (temp_file_path ''0a'' demo_file)
             = Inr \<lparr>pd_text = Some ''Hello world'', pd_page_details = Some [''Hello world'']\<rparr>"
    by (simp add: demo_defs)
  have d: "pd_text \<lparr>pd_text = Some ''Hello world'', pd_page_details = Some [''Hello world'']\<rparr>
             = Some ''Hello world''"
    by simp
  have e: "''Hello world'' \<noteq> []" by simp
  have f: "summarize_document demo_services_disk_full ''sk-demo'' ''Hello world'' ''general''
             = Inr ''A greeting''"
    by (simp add: demo_defs)
  have g: "process_and_chunk_pages demo_services_disk_full (filename demo_file)
             (pd_page_details \<lparr>pd_text = Some ''Hello world'', pd_page_details = Some [''Hello world'']\<rparr>)
             250 50 = Inr [''Hello world'']"
    by (simp add: demo_defs)
  have h: "build_index demo_services_disk_full [''Hello world'']
             = Inr \<lparr>br_error = Some ''disk full'', br_path = None\<rparr>"
    by (simp add: demo_defs)
  have i: "br_error \<lparr>br_error = Some ''disk full'', br_path = None\<rparr> = Some ''disk full''"
    by simp
  have "cache empty_world ''1b'' = None" by (simp add: empty_world_def)
  then show ?thesis
    using index_error_is_server_error [OF a b c d e f g h i, of "''1b''" empty_world]
    by simp
qed

subsection \<open>C6\<close>

text \<open>
  Claim C6. When \<open>OPENAI_API_KEY\<close> is absent (or empty), the summary endpoint returns
  the payload \<open>{error: "Missing OPENAI_API_KEY"}\<close> and the world is untouched: no cache
  lookup and no collaborator call has been made.
\<close>

theorem missing_key_short_circuits:
  "get_summary sv None type document_id text w
     = (Inr [(''error'', JStr ''Missing OPENAI_API_KEY'')], w) \<and>
   get_summary sv (Some []) type document_id text w
     = (Inr [(''error'', JStr ''Missing OPENAI_API_KEY'')], w)"
  by (simp add: get_summary_def get_summarizer_def)

text \<open>The theorem at a concrete run.\<close>

theorem missing_key_short_circuits_witness:
  "get_summary demo_services None ''short'' (Some ''doc1'') None cached_world
     = (Inr [(''error'', JStr ''Missing OPENAI_API_KEY'')], cached_world) \<and>
   trace cached_world = []"
  using missing_key_short_circuits [of demo_services "''short''" "Some ''doc1''" None cached_world]
  by (simp add: cached_world_def)

subsection \<open>C7\<close>

text \<open>
  Claim C7, as the code has it. For every non-empty identifier that the Result Cache
  does not hold, the lookup gives \<open>None\<close>, and the summary endpoint called with a
  credential, that identifier and no text (or the empty text) returns the error payload
  that tells the caller to process the document first; the lookup is the only call made.
\<close>

theorem unknown_identifier_not_processed:
  assumes "cache w d = None" and "d \<noteq> []" and "\<not> truthy text" and "truthy env_key"
  shows "get_summary sv env_key type (Some d) text w
           = (Inr [(''error'', JStr (not_processed_message d))], emit (Cache_get d) w)"
  using assms
  by (simp add: get_summary_def get_summarizer_def source_text_def truthy_def py_str_def Let_def
        split: option.splits)

text \<open>The theorem at a concrete run.\<close>

theorem unknown_identifier_not_processed_witness:
  "cache empty_world ''1b'' = None \<and>
   fst (get_summary demo_services (Some ''sk-demo'') ''short'' (Some ''1b'') None empty_world)
     = Inr [(''error'',
             JStr ''Document 1b not processed yet. Please process the document first using POST /api/process/1b'')]"
proof -
  have a: "cache empty_world ''1b'' = None" by (simp add: empty_world_def)
  have b: "''1b'' \<noteq> []" by simp
  have c: "\<not> truthy None" by (simp add: truthy_def)
  have d: "truthy (Some ''sk-demo'')" by (simp add: truthy_def)
  show ?thesis
    using a unknown_identifier_not_processed [OF a b c d, of demo_services "''short''"]
    by (simp add: not_processed_message_def)
qed

text \<open>The claim as stated fails at the empty identifier, which the cache does not hold: the endpoint answers with the usage error, not with the request to process the document first.\<close>

theorem unknown_empty_identifier_counterexample:
  "cache empty_world [] = None \<and>
   get_summary demo_services (Some ''sk-demo'') ''short'' (Some []) None empty_world
     = (Inr [(''error'', JStr no_text_message)], empty_world) \<and>
   no_text_message \<noteq> not_processed_message []"
  by (simp add: summary_defs demo_defs no_text_message_def not_processed_message_def)

subsection \<open>C8\<close>

text \<open>
  Claim C8, as the code has it. When a non-empty raw text is supplied, it is the source
  text whatever identifier comes with it, and the cache is not consulted: the only call
  the endpoint makes is the one to the summarizer, with that text, when a credential is
  present.
\<close>

theorem supplied_text_is_source:
  assumes "text = Some t" and "t \<noteq> []"
  shows "source_text document_id text w = (Inr t, w) \<and>
         trace (snd (get_summary sv env_key type document_id text w))
           = trace w @ (if truthy env_key then [Summarize_document t type] else [])"
proof -
  have src: "source_text document_id text w = (Inr t, w)"
    using assms by (simp add: source_text_def truthy_def Let_def)
  have "trace (snd (get_summary sv env_key type document_id text w))
          = trace w @ (if truthy env_key then [Summarize_document t type] else [])"
    using assms(2)
    by (simp add: get_summary_def get_summarizer_def src truthy_def emit_def Let_def
          split: option.splits sum.splits)
  with src show ?thesis by simp
qed

text \<open>The theorem at a concrete run.\<close>

theorem supplied_text_is_source_witness:
  "source_text (Some ''doc1'') (Some ''Hello world'') cached_world
     = (Inr ''Hello world'', cached_world) \<and>
   trace (snd (get_summary demo_services (Some ''sk-demo'') ''short'' (Some ''doc1'')
                 (Some ''Hello world'') cached_world))
     = [Summarize_document ''Hello world'' ''short'']"
proof -
  have a: "Some ''Hello world'' = Some ''Hello world''" by simp
  have b: "''Hello world'' \<noteq> []" by simp
  have c: "truthy (Some ''sk-demo'')" by (simp add: truthy_def)
  have d: "trace cached_world = []" by (simp add: cached_world_def)
  show ?thesis
    using supplied_text_is_source
      [OF a b, of "Some ''doc1''" cached_world demo_services "Some ''sk-demo''" "''short''"] c d
    by simp
qed

text \<open>The claim as stated fails when the supplied text is empty: the identifier is looked up in the cache, and the cached text becomes the source text.\<close>

theorem empty_text_consults_cache_counterexample:
  "source_text (Some ''doc1'') (Some []) cached_world
     = (Inr ''cached text'', cached_world\<lparr>trace := [Cache_get ''doc1'']\<rparr>)"
  by (simp add: summary_defs demo_defs)

subsection \<open>C9\<close>

text \<open>
  Claim C9. With a credential present, a non-empty resolved source text and a
  summarizer that returns, the response of the summary endpoint holds the summary the
  collaborator returned, a word count equal to the number of whitespace-separated tokens
  of that summary, and the status "success". The word count the handler computes,
  \<open>len(summary.split())\<close>, is that number of tokens.
\<close>

theorem summary_success_response:
  assumes "env_key = Some key" and "key \<noteq> []"
    and "fst (source_text document_id text w) = Inr source" and "source \<noteq> []"
    and "summarize_document sv key source type = Inr summary"
  shows "fst (get_summary sv env_key type document_id text w)
           = Inr [(''summary'', JStr summary),
                  (''word_count'', JInt (int (count_tokens False summary))),
                  (''status'', JStr ''success'')] \<and>
         length (str_split summary) = count_tokens False summary"
proof -
  obtain w1 where s: "source_text document_id text w = (Inr source, w1)"
    using assms(3) by (cases "source_text document_id text w") simp
  show ?thesis
    using assms(1,2,4,5) s
    by (simp add: get_summary_def get_summarizer_def Let_def length_str_split)
qed

text \<open>The theorem at a concrete run.\<close>

theorem summary_success_response_witness:
  "fst (get_summary demo_services (Some ''sk-demo'') ''short'' None (Some ''Hello world'') empty_world)
     = Inr [(''summary'', JStr ''A greeting''), (''word_count'', JInt 2), (''status'', JStr ''success'')]"
proof -
  have a: "Some ''sk-demo'' = Some ''sk-demo''" by simp
  have b: "''sk-demo'' \<noteq> []" by simp
  have c: "fst (source_text None (Some ''Hello world'') empty_world) = Inr ''Hello world''"
    by (simp add: source_text_def truthy_def Let_def)
  have d: "''Hello world'' \<noteq> []" by simp
  have e: "summarize_document demo_services ''sk-demo'' ''Hello world'' ''short'' = Inr ''A greeting''"
    by (simp add: demo_defs)
  have f: "count_tokens False ''A greeting'' = 2"
    by (simp add: isspace_def)
  show ?thesis
    using summary_success_response [OF a b c d e] f by simp
qed

subsection \<open>C10\<close>

text \<open>
  Claim C10. A successful response of the workflow endpoint has exactly the keys
  success, filename, summary and faiss_index_path, in this order; faiss_index_path is
  the constant "embeddings/document_index.faiss"; the response is the same for every
  document identifier drawn, and is made of the file name and the summarizer's answer
  only, so that neither the identifier nor the build result enters it.
\<close>

theorem workflow_response_shape:
  assumes "fst (process_document_fully sv k u1 u2 upl w) = Inr resp"
  shows "map fst resp = [''success'', ''filename'', ''summary'', ''faiss_index_path''] \<and>
         map_of resp ''faiss_index_path'' = Some (JStr ''embeddings/document_index.faiss'') \<and>
         (\<forall>d. fst (process_document_fully sv k u1 d upl w) = Inr resp) \<and>
         (\<exists>pd t summary.
            process_document sv (temp_file_path u1 upl) = Inr pd \<and> pd_text pd = Some t \<and>
            summarize_document sv k t ''general'' = Inr summary \<and>
            resp = [(''success'', JBool True),
                    (''filename'', (case filename upl of None \<Rightarrow> JNull | Some f \<Rightarrow> JStr f)),
                    (''summary'', JStr summary),
                    (''faiss_index_path'', JStr ''embeddings/document_index.faiss'')])"
proof -
  have p: "fst (pipeline sv k u2 upl (temp_file_path u1 upl) w) = Inr resp"
    using assms by (simp add: pdf_fst)
  from pipeline_success [OF p] obtain pd t summary where
    ex: "process_document sv (temp_file_path u1 upl) = Inr pd" "pd_text pd = Some t"
        "summarize_document sv k t ''general'' = Inr summary"
        "resp = [(''success'', JBool True),
                 (''filename'', (case filename upl of None \<Rightarrow> JNull | Some f \<Rightarrow> JStr f)),
                 (''summary'', JStr summary),
                 (''faiss_index_path'', JStr ''embeddings/document_index.faiss'')]"
    by blast
  have keys: "map fst resp = [''success'', ''filename'', ''summary'', ''faiss_index_path'']"
    using ex(4) by simp
  have path: "map_of resp ''faiss_index_path'' = Some (JStr ''embeddings/document_index.faiss'')"
    using ex(4) by simp
  have indep: "\<forall>d. fst (process_document_fully sv k u1 d upl w) = Inr resp"
    using p pipeline_fst_id [of sv k _ upl "temp_file_path u1 upl" w u2] by (simp add: pdf_fst)
  show ?thesis
    using keys path indep ex by blast
qed

text \<open>The theorem at a concrete run.\<close>

theorem workflow_response_shape_witness:
  "fst (process_document_fully demo_services ''sk-demo'' ''0a'' ''1b'' demo_file empty_world)
     = Inr demo_response \<and>
   map fst demo_response = [''success'', ''filename'', ''summary'', ''faiss_index_path''] \<and>
   map_of demo_response ''faiss_index_path'' = Some (JStr ''embeddings/document_index.faiss'') \<and>
   fst (process_document_fully demo_services ''sk-demo'' ''0a'' ''2c'' demo_file empty_world)
     = Inr demo_response"
proof -
  have h: "fst (process_document_fully demo_services ''sk-demo'' ''0a'' ''1b'' demo_file empty_world)
     = Inr demo_response"
    by (simp add: demo_run)
  show ?thesis
    using h workflow_response_shape [OF h] by blast
qed

end
